theory Spec2Isabelle
  imports Main "HOL-Library.Word"
begin

section \<open>The TLS 1.3 channel (\<^verbatim>\<open>src/lib/tls/tls13/tls_channel_impl_13.cpp\<close>)\<close>

text \<open>
  A shallow embedding of \<^verbatim>\<open>Channel_Impl_13\<close>. The member variables of the class are
  the fields of a record, every member function takes the channel and returns the updated
  one, and every way a member function can end is a constructor of \<open>outcome\<close>: a normal
  return, a C++ exception (with the channel as the throw left it) or the dereference of a
  null \<^verbatim>\<open>std::unique_ptr\<close>.

  The Record Layer, the Handshake Layer, the Cipher State, the \<^verbatim>\<open>Alert\<close> class and
  the virtual \<^verbatim>\<open>process_handshake_msg\<close> are not part of the translation unit. They are
  parameters of the model (the record \<open>collaborators\<close>), so every theorem holds for
  every implementation of them.
\<close>

subsection \<open>Data\<close>

type_synonym bytes = "8 word list"

text \<open>
  Modelled from the spec: the enumeration \<^verbatim>\<open>Alert::Type\<close> is declared in a header that
  is not among the sources. The constructors are the alert types the translation unit
  names; \<open>OTHER_ALERT\<close> stands for the remaining wire values.
\<close>

datatype alert_type =
    CLOSE_NOTIFY
  | UNEXPECTED_MESSAGE
  | BAD_RECORD_MAC
  | DECODE_ERROR
  | INTERNAL_ERROR
  | USER_CANCELED
  | NULL_ALERT
  | OTHER_ALERT nat

text \<open>
  Modelled from the spec: the class \<^verbatim>\<open>Alert\<close> (declared in a missing header), reduced to
  what the translation unit reads: its type and the fatal flag that
  \<^verbatim>\<open>send_fatal_alert\<close> sets.
\<close>

datatype alert = Alert (type: alert_type) (is_fatal: bool)

text \<open>
  Modelled from the spec (section 7, error taxonomy): the exception classes, declared in
  missing headers. \<open>TLS_Exception\<close> is the typed protocol error carrying an alert
  classification, \<open>Invalid_State\<close> the state-precondition error that
  \<^verbatim>\<open>BOTAN_STATE_CHECK\<close> raises, \<open>Other_Exception\<close> anything that only
  \<^verbatim>\<open>catch(...)\<close> catches (a failed \<^verbatim>\<open>BOTAN_ASSERT\<close> among them). The string is
  the exception's message; for \<^verbatim>\<open>BOTAN_STATE_CHECK\<close> it is the expression that was
  checked.
\<close>

datatype exn =
    TLS_Exception alert_type string
  | Invalid_Authentication_Tag
  | Decoding_Error
  | Invalid_State string
  | Other_Exception string

definition Unexpected_Message :: "string \<Rightarrow> exn" where
  "Unexpected_Message err = TLS_Exception UNEXPECTED_MESSAGE err"

text \<open>
  How a member function ends: it returns a value, or it throws, in both cases with the
  channel as it is at that point; or it dereferences a null pointer, after which the
  program has no defined state.
\<close>

datatype ('a, 's) outcome =
    Returns 'a 's
  | Throws exn 's
  | Null_Dereference

text \<open>
  Modelled from the spec (section 3, Record): \<^verbatim>\<open>Record_Type\<close>, \<^verbatim>\<open>Record\<close> and the
  result of \<^verbatim>\<open>next_record\<close>, declared in a missing header. The record type is the
  four tags the dispatch compares with; \<open>OTHER_RECORD_TYPE\<close> carries any other numeric
  value. The sequence number is present only for decrypted application data.
\<close>

datatype record_type =
    HANDSHAKE
  | CHANGE_CIPHER_SPEC
  | APPLICATION_DATA
  | ALERT
  | OTHER_RECORD_TYPE nat

record tls_record =
  type :: record_type
  fragment :: bytes
  seq_no :: "nat option"

datatype record_result = BytesNeeded nat | Record tls_record

text \<open>
  Modelled from the spec (section 3, Handshake Message): the closed variant
  \<^verbatim>\<open>Handshake_Message_13\<close>, each alternative with its encoded body.
\<close>

datatype handshake_message =
    Client_Hello_13 bytes
  | Server_Hello_13 bytes
  | Server_Hello_12 bytes
  | Hello_Retry_Request bytes
  | Encrypted_Extensions bytes
  | Certificate_13 bytes
  | Certificate_Verify_13 bytes
  | Finished_13 bytes

text \<open>
  The calls \<open>Channel_Impl_13\<close> makes on the caller's \<^verbatim>\<open>Callbacks\<close> object, with their
  arguments.
\<close>

datatype callback_event =
    tls_emit_data bytes
  | tls_record_received nat bytes
  | tls_alert alert

datatype connection_side = CLIENT | SERVER

text \<open>
  Modelled from the spec (section 3, Downgrade Staging): \<^verbatim>\<open>Downgrade_Information\<close>,
  in the order of the initialiser of \<^verbatim>\<open>expect_downgrade\<close>. The references to the
  callbacks, the managers, the random number generator and the policy are handles of
  objects the channel does not own; they are left out.
\<close>

record downgrade_information =
  client_hello_message :: bytes
  peer_transcript :: bytes
  server_info :: string
  will_downgrade :: bool

text \<open>
  The members of \<^verbatim>\<open>Channel_Impl_13\<close>. \<open>m_callbacks\<close> is the log of the calls made on
  the \<^verbatim>\<open>Callbacks\<close> object, oldest first. The state of a derived class (the client or the
  server implementation) is the extension part of the record.
\<close>

record ('cs, 'rl, 'hl, 'th) channel =
  m_side :: connection_side
  m_callbacks :: "callback_event list"
  m_record_layer :: 'rl
  m_handshake_layer :: 'hl
  m_cipher_state :: "'cs option"
  m_transcript_hash :: 'th
  m_downgrade_info :: "downgrade_information option"
  m_can_read :: bool
  m_can_write :: bool

text \<open>
  The collaborators. A call that can throw returns \<open>Inl\<close> with the exception or \<open>Inr\<close>
  with its result, in both cases with the collaborator's state after the call. The Record
  Layer receives the raw pointer \<^verbatim>\<open>m_cipher_state.get()\<close>: it can change the cipher state
  it points to (the last component of its result, applied with \<open>map_option\<close>) but not
  whether the channel owns one.
\<close>

record ('cs, 'rl, 'hl, 'th, 'z) collaborators =
  rl_copy_data :: "bytes \<Rightarrow> 'rl \<Rightarrow> 'rl"
  next_record :: "'rl \<Rightarrow> 'cs option \<Rightarrow>
    (exn \<times> 'rl \<times> ('cs \<Rightarrow> 'cs)) + (record_result \<times> 'rl \<times> ('cs \<Rightarrow> 'cs))"
  prepare_records :: "record_type \<Rightarrow> bytes \<Rightarrow> 'rl \<Rightarrow> 'cs option \<Rightarrow>
    (exn \<times> 'rl \<times> ('cs \<Rightarrow> 'cs)) + (bytes \<times> 'rl \<times> ('cs \<Rightarrow> 'cs))"
  hl_copy_data :: "bytes \<Rightarrow> 'hl \<Rightarrow> 'hl"
  next_message :: "'hl \<Rightarrow> 'th \<Rightarrow>
    (exn \<times> 'hl \<times> 'th) + (handshake_message option \<times> 'hl \<times> 'th)"
  has_pending_data :: "'hl \<Rightarrow> bool"
  can_encrypt_application_traffic :: "'cs \<Rightarrow> bool"
  clear_read_keys :: "'cs \<Rightarrow> 'cs"
  clear_write_keys :: "'cs \<Rightarrow> 'cs"
  alert_parse :: "bytes \<Rightarrow> exn + alert"
  alert_serialize :: "alert \<Rightarrow> bytes"
  alert_is_valid :: "alert \<Rightarrow> bool"
  process_handshake_msg :: "handshake_message \<Rightarrow> ('cs, 'rl, 'hl, 'th, 'z) channel_scheme \<Rightarrow>
    (unit, ('cs, 'rl, 'hl, 'th, 'z) channel_scheme) outcome"

text \<open>
  How one pass of a loop of \<^verbatim>\<open>received_data\<close> ends: the loop goes on, or control
  leaves \<^verbatim>\<open>received_data\<close> by a \<^verbatim>\<open>return\<close>, a \<^verbatim>\<open>throw\<close> or a null dereference.
\<close>

datatype 's step = Continue 's | Exit "(nat, 's) outcome"

subsection \<open>Helpers of the translation unit\<close>

definition is_closure_alert :: "alert \<Rightarrow> bool" where
  "is_closure_alert alert \<longleftrightarrow>
     alert.type alert = CLOSE_NOTIFY \<or> alert.type alert = USER_CANCELED"

definition is_error_alert :: "alert \<Rightarrow> bool" where
  "is_error_alert alert \<longleftrightarrow> \<not> is_closure_alert alert"

text \<open>
  \<^verbatim>\<open>holds_any_of<Client_Hello_13, Server_Hello_13, Hello_Retry_Request, Finished_13>\<close>
  of line 108, and \<^verbatim>\<open>std::holds_alternative<Server_Hello_12>\<close> of line 113.
\<close>

fun holds_any_of_aligned :: "handshake_message \<Rightarrow> bool" where
  "holds_any_of_aligned (Client_Hello_13 _) = True"
| "holds_any_of_aligned (Server_Hello_13 _) = True"
| "holds_any_of_aligned (Hello_Retry_Request _) = True"
| "holds_any_of_aligned (Finished_13 _) = True"
| "holds_any_of_aligned _ = False"

fun holds_Server_Hello_12 :: "handshake_message \<Rightarrow> bool" where
  "holds_Server_Hello_12 (Server_Hello_12 _) = True"
| "holds_Server_Hello_12 _ = False"

text \<open>\<^verbatim>\<open>std::to_string\<close> on the numeric record type (line 153).\<close>

fun to_string :: "nat \<Rightarrow> string" where
  "to_string n =
     (if n < 10 then [char_of (48 + n)]
      else to_string (n div 10) @ [char_of (48 + n mod 10)])"

subsection \<open>Members declared in the missing header\<close>

text \<open>
  Modelled from the spec: \<^verbatim>\<open>is_downgrading\<close> (section 4.1, the terminal state in which
  downgrade is confirmed: the staging exists and its \<open>will_downgrade\<close> flag is set).
\<close>

definition is_downgrading :: "('cs, 'rl, 'hl, 'th, 'z) channel_scheme \<Rightarrow> bool" where
  "is_downgrading s =
     (case m_downgrade_info s of None \<Rightarrow> False | Some di \<Rightarrow> will_downgrade di)"

text \<open>
  Modelled from the spec: \<^verbatim>\<open>expects_downgrade\<close> (section 4.1 step 1, downgrade is
  still possible: the staging exists).
\<close>

definition expects_downgrade :: "('cs, 'rl, 'hl, 'th, 'z) channel_scheme \<Rightarrow> bool" where
  "expects_downgrade s \<longleftrightarrow> m_downgrade_info s \<noteq> None"

text \<open>
  Modelled from the spec: \<^verbatim>\<open>preserve_peer_transcript\<close> (section 4.1 step 1: append the
  raw input to the downgrade transcript buffer). Without staging there is no buffer to
  append to: a state-precondition error.
\<close>

definition preserve_peer_transcript ::
  "bytes \<Rightarrow> ('cs, 'rl, 'hl, 'th, 'z) channel_scheme \<Rightarrow>
   (unit, ('cs, 'rl, 'hl, 'th, 'z) channel_scheme) outcome" where
  "preserve_peer_transcript input s =
     (case m_downgrade_info s of
        None \<Rightarrow> Throws (Invalid_State ''m_downgrade_info'') s
      | Some di \<Rightarrow>
          Returns () (s\<lparr>m_downgrade_info :=
            Some (di\<lparr>peer_transcript := peer_transcript di @ input\<rparr>)\<rparr>))"

subsection \<open>Member functions of the translation unit\<close>

text \<open>The constructor (lines 35 to 53); the two layers are built by the caller's types.\<close>

definition Channel_Impl_13 ::
  "'rl \<Rightarrow> 'hl \<Rightarrow> 'th \<Rightarrow> bool \<Rightarrow> ('cs, 'rl, 'hl, 'th) channel" where
  "Channel_Impl_13 record_layer handshake_layer transcript_hash is_server =
     \<lparr>m_side = (if is_server then SERVER else CLIENT),
      m_callbacks = [],
      m_record_layer = record_layer,
      m_handshake_layer = handshake_layer,
      m_cipher_state = None,
      m_transcript_hash = transcript_hash,
      m_downgrade_info = None,
      m_can_read = True,
      m_can_write = True\<rparr>"

text \<open>\<^verbatim>\<open>shutdown\<close> (lines 277 to 285).\<close>

definition shutdown ::
  "('cs, 'rl, 'hl, 'th, 'z) channel_scheme \<Rightarrow> ('cs, 'rl, 'hl, 'th, 'z) channel_scheme" where
  "shutdown s = s\<lparr>m_can_read := False, m_can_write := False, m_cipher_state := None\<rparr>"

text \<open>\<^verbatim>\<open>expect_downgrade\<close> (lines 287 to 302).\<close>

definition expect_downgrade ::
  "string \<Rightarrow> ('cs, 'rl, 'hl, 'th, 'z) channel_scheme \<Rightarrow>
   ('cs, 'rl, 'hl, 'th, 'z) channel_scheme" where
  "expect_downgrade server_information s =
     s\<lparr>m_downgrade_info :=
       Some \<lparr>client_hello_message = [], peer_transcript = [],
             server_info = server_information, will_downgrade = False\<rparr>\<rparr>"

text \<open>\<^verbatim>\<open>is_active\<close> (lines 236 to 241).\<close>

definition is_active ::
  "('cs, 'rl, 'hl, 'th, 'z) collaborators \<Rightarrow> ('cs, 'rl, 'hl, 'th, 'z) channel_scheme \<Rightarrow> bool"
  where
  "is_active env s \<longleftrightarrow>
     (case m_cipher_state s of
        None \<Rightarrow> False
      | Some cs \<Rightarrow> can_encrypt_application_traffic env cs)
     \<and> m_can_write s"

text \<open>
  \<^verbatim>\<open>send_record\<close> (lines 252 to 259): the two state checks, the Record Layer, the
  callback.
\<close>

definition send_record ::
  "('cs, 'rl, 'hl, 'th, 'z) collaborators \<Rightarrow> record_type \<Rightarrow> bytes \<Rightarrow>
   ('cs, 'rl, 'hl, 'th, 'z) channel_scheme \<Rightarrow>
   (unit, ('cs, 'rl, 'hl, 'th, 'z) channel_scheme) outcome" where
  "send_record env record_type rec s =
     (if is_downgrading s then Throws (Invalid_State ''!is_downgrading()'') s
      else if \<not> m_can_write s then Throws (Invalid_State ''m_can_write'') s
      else
        (case prepare_records env record_type rec (m_record_layer s) (m_cipher_state s) of
           Inl (e, rl, upd) \<Rightarrow>
             Throws e (s\<lparr>m_record_layer := rl,
                         m_cipher_state := map_option upd (m_cipher_state s)\<rparr>)
         | Inr (to_write, rl, upd) \<Rightarrow>
             Returns () (s\<lparr>m_record_layer := rl,
                           m_cipher_state := map_option upd (m_cipher_state s),
                           m_callbacks := m_callbacks s @ [tls_emit_data to_write]\<rparr>)))"

text \<open>\<^verbatim>\<open>send\<close> (lines 202 to 208).\<close>

definition send ::
  "('cs, 'rl, 'hl, 'th, 'z) collaborators \<Rightarrow> bytes \<Rightarrow>
   ('cs, 'rl, 'hl, 'th, 'z) channel_scheme \<Rightarrow>
   (unit, ('cs, 'rl, 'hl, 'th, 'z) channel_scheme) outcome" where
  "send env buf s =
     (if \<not> is_active env s
      then Throws (Invalid_State ''Data cannot be sent on inactive TLS connection'') s
      else send_record env APPLICATION_DATA buf s)"

text \<open>
  \<^verbatim>\<open>send_alert\<close> (lines 210 to 234). The transmission is attempted inside
  \<^verbatim>\<open>try { ... } catch(...) { }\<close>: an exception of \<open>send_record\<close> is dropped and the
  channel goes on as the throw left it. \<^verbatim>\<open>m_cipher_state->clear_write_keys()\<close> is the
  dereference of a pointer that may be null.
\<close>

definition send_alert ::
  "('cs, 'rl, 'hl, 'th, 'z) collaborators \<Rightarrow> alert \<Rightarrow>
   ('cs, 'rl, 'hl, 'th, 'z) channel_scheme \<Rightarrow>
   (unit, ('cs, 'rl, 'hl, 'th, 'z) channel_scheme) outcome" where
  "send_alert env alert s =
     (case (if alert_is_valid env alert \<and> m_can_write s
            then (case send_record env ALERT (alert_serialize env alert) s of
                    Returns _ s1 \<Rightarrow> Some s1
                  | Throws _ s1 \<Rightarrow> Some s1
                  | Null_Dereference \<Rightarrow> None)
            else Some s) of
        None \<Rightarrow> Null_Dereference
      | Some s1 \<Rightarrow>
          (case (if is_closure_alert alert
                 then (case m_cipher_state s1 of
                         None \<Rightarrow> None
                       | Some cs \<Rightarrow>
                           Some (s1\<lparr>m_can_write := False,
                                    m_cipher_state := Some (clear_write_keys env cs)\<rparr>))
                 else Some s1) of
             None \<Rightarrow> Null_Dereference
           | Some s2 \<Rightarrow> Returns () (if is_error_alert alert then shutdown s2 else s2)))"

text \<open>
  Modelled from the spec: \<^verbatim>\<open>send_fatal_alert\<close>, declared in the missing header
  (section 4.1, failure semantics: the alert is transmitted as a fatal outbound alert).
\<close>

definition send_fatal_alert ::
  "('cs, 'rl, 'hl, 'th, 'z) collaborators \<Rightarrow> alert_type \<Rightarrow>
   ('cs, 'rl, 'hl, 'th, 'z) channel_scheme \<Rightarrow>
   (unit, ('cs, 'rl, 'hl, 'th, 'z) channel_scheme) outcome" where
  "send_fatal_alert env alert_type s = send_alert env (Alert alert_type True) s"

text \<open>
  \<^verbatim>\<open>process_alert\<close> (lines 261 to 275). The constructor \<^verbatim>\<open>Alert(record)\<close> parses and
  can throw; \<^verbatim>\<open>m_cipher_state->clear_read_keys()\<close> dereferences a pointer that may be
  null.
\<close>

definition process_alert ::
  "('cs, 'rl, 'hl, 'th, 'z) collaborators \<Rightarrow> bytes \<Rightarrow>
   ('cs, 'rl, 'hl, 'th, 'z) channel_scheme \<Rightarrow>
   (unit, ('cs, 'rl, 'hl, 'th, 'z) channel_scheme) outcome" where
  "process_alert env rec s =
     (case alert_parse env rec of
        Inl e \<Rightarrow> Throws e s
      | Inr alert \<Rightarrow>
          (case (if is_closure_alert alert
                 then (case m_cipher_state s of
                         None \<Rightarrow> None
                       | Some cs \<Rightarrow>
                           Some (s\<lparr>m_can_read := False,
                                   m_cipher_state := Some (clear_read_keys env cs)\<rparr>))
                 else Some s) of
             None \<Rightarrow> Null_Dereference
           | Some s1 \<Rightarrow>
               (let s2 = (if is_error_alert alert then shutdown s1 else s1)
                in Returns () (s2\<lparr>m_callbacks := m_callbacks s2 @ [tls_alert alert]\<rparr>))))"

text \<open>
  The inner loop of \<^verbatim>\<open>received_data\<close> (lines 91 to 129): drain the complete handshake
  messages. It ends with \<open>Continue\<close> when the Handshake Layer has no complete message
  left, and with \<open>Exit\<close> where the source throws or returns from
  \<^verbatim>\<open>received_data\<close>. \<open>None\<close> is a loop that never ends.
\<close>

partial_function (option) handshake_loop ::
  "('cs, 'rl, 'hl, 'th, 'z) collaborators \<Rightarrow> ('cs, 'rl, 'hl, 'th, 'z) channel_scheme \<Rightarrow>
   ('cs, 'rl, 'hl, 'th, 'z) channel_scheme step option" where
  "handshake_loop env s =
     (case next_message env (m_handshake_layer s) (m_transcript_hash s) of
        Inl (e, hl, th) \<Rightarrow>
          Some (Exit (Throws e (s\<lparr>m_handshake_layer := hl, m_transcript_hash := th\<rparr>)))
      | Inr (None, hl, th) \<Rightarrow>
          Some (Continue (s\<lparr>m_handshake_layer := hl, m_transcript_hash := th\<rparr>))
      | Inr (Some handshake_msg, hl, th) \<Rightarrow>
          (if holds_any_of_aligned handshake_msg \<and> has_pending_data env hl
           then Some (Exit (Throws
                  (Unexpected_Message
                     ''Unexpected additional handshake message data found in record'')
                  (s\<lparr>m_handshake_layer := hl, m_transcript_hash := th\<rparr>)))
           else
             (case process_handshake_msg env handshake_msg
                     (s\<lparr>m_handshake_layer := hl, m_transcript_hash := th\<rparr>) of
                Throws e s1 \<Rightarrow> Some (Exit (Throws e s1))
              | Null_Dereference \<Rightarrow> Some (Exit Null_Dereference)
              | Returns _ s1 \<Rightarrow>
                  (if holds_Server_Hello_12 handshake_msg
                   then
                     (case m_downgrade_info s1 of
                        None \<Rightarrow> Some (Exit (Throws (Invalid_State ''m_downgrade_info'') s1))
                      | Some di \<Rightarrow>
                          Some (Exit (Returns 0
                            (s1\<lparr>m_downgrade_info := Some (di\<lparr>will_downgrade := True\<rparr>)\<rparr>))))
                   else handshake_loop env (s1\<lparr>m_downgrade_info := None\<rparr>)))))"

text \<open>
  One pass through the body of the outer loop, from the interleaving check of line 84 to
  the end of the dispatch on the record type (line 153).
\<close>

definition process_record ::
  "('cs, 'rl, 'hl, 'th, 'z) collaborators \<Rightarrow> tls_record \<Rightarrow>
   ('cs, 'rl, 'hl, 'th, 'z) channel_scheme \<Rightarrow>
   ('cs, 'rl, 'hl, 'th, 'z) channel_scheme step option" where
  "process_record env record s =
     (if tls_record.type record \<noteq> HANDSHAKE \<and> has_pending_data env (m_handshake_layer s)
      then Some (Exit (Throws
             (Unexpected_Message ''Expected remainder of a handshake message'') s))
      else if tls_record.type record = HANDSHAKE
      then handshake_loop env
             (s\<lparr>m_handshake_layer := hl_copy_data env (fragment record) (m_handshake_layer s)\<rparr>)
      else if tls_record.type record = CHANGE_CIPHER_SPEC
      then Some (Continue s)
      else if tls_record.type record = APPLICATION_DATA
      then
        (case seq_no record of
           None \<Rightarrow>
             Some (Exit (Throws
               (Other_Exception ''decrypted application traffic had a sequence number'') s))
         | Some n \<Rightarrow>
             Some (Continue
               (s\<lparr>m_callbacks := m_callbacks s @ [tls_record_received n (fragment record)]\<rparr>)))
      else if tls_record.type record = ALERT
      then
        (case process_alert env (fragment record) s of
           Returns _ s1 \<Rightarrow> Some (Continue s1)
         | Throws e s1 \<Rightarrow> Some (Exit (Throws e s1))
         | Null_Dereference \<Rightarrow> Some (Exit Null_Dereference))
      else
        Some (Exit (Throws
          (Unexpected_Message
             (''Unexpected record type ''
              @ (case tls_record.type record of OTHER_RECORD_TYPE n \<Rightarrow> to_string n | _ \<Rightarrow> [])
              @ '' from counterparty'')) s)))"

text \<open>
  The outer loop (lines 73 to 154): pull the next record until the Record Layer asks for
  more bytes.
\<close>

partial_function (option) record_loop ::
  "('cs, 'rl, 'hl, 'th, 'z) collaborators \<Rightarrow> ('cs, 'rl, 'hl, 'th, 'z) channel_scheme \<Rightarrow>
   (nat, ('cs, 'rl, 'hl, 'th, 'z) channel_scheme) outcome option" where
  "record_loop env s =
     (case next_record env (m_record_layer s) (m_cipher_state s) of
        Inl (e, rl, upd) \<Rightarrow>
          Some (Throws e (s\<lparr>m_record_layer := rl,
                            m_cipher_state := map_option upd (m_cipher_state s)\<rparr>))
      | Inr (BytesNeeded n, rl, upd) \<Rightarrow>
          Some (Returns n (s\<lparr>m_record_layer := rl,
                             m_cipher_state := map_option upd (m_cipher_state s)\<rparr>))
      | Inr (Record record, rl, upd) \<Rightarrow>
          Option.bind
            (process_record env record
               (s\<lparr>m_record_layer := rl,
                  m_cipher_state := map_option upd (m_cipher_state s)\<rparr>))
            (\<lambda>st. case st of
               Continue s1 \<Rightarrow> record_loop env s1
             | Exit out \<Rightarrow> Some out))"

text \<open>
  The body of the \<^verbatim>\<open>try\<close> block (lines 68 to 154).
\<close>

definition received_data_body ::
  "('cs, 'rl, 'hl, 'th, 'z) collaborators \<Rightarrow> bytes \<Rightarrow>
   ('cs, 'rl, 'hl, 'th, 'z) channel_scheme \<Rightarrow>
   (nat, ('cs, 'rl, 'hl, 'th, 'z) channel_scheme) outcome option" where
  "received_data_body env input s =
     (case (if expects_downgrade s then preserve_peer_transcript input s else Returns () s) of
        Throws e s1 \<Rightarrow> Some (Throws e s1)
      | Null_Dereference \<Rightarrow> Some Null_Dereference
      | Returns _ s1 \<Rightarrow>
          record_loop env
            (s1\<lparr>m_record_layer := rl_copy_data env input (m_record_layer s1)\<rparr>))"

text \<open>
  The four handlers (lines 156 to 178), in the order of the source: each sends a fatal
  alert and rethrows the exception it caught. An exception is the only thing they catch.
\<close>

definition received_data_catch ::
  "('cs, 'rl, 'hl, 'th, 'z) collaborators \<Rightarrow>
   (nat, ('cs, 'rl, 'hl, 'th, 'z) channel_scheme) outcome option \<Rightarrow>
   (nat, ('cs, 'rl, 'hl, 'th, 'z) channel_scheme) outcome option" where
  "received_data_catch env r =
     (case r of
        Some (Throws e s1) \<Rightarrow>
          (case (case e of
                   TLS_Exception t _ \<Rightarrow> send_fatal_alert env t s1
                 | Invalid_Authentication_Tag \<Rightarrow> send_fatal_alert env BAD_RECORD_MAC s1
                 | Decoding_Error \<Rightarrow> send_fatal_alert env DECODE_ERROR s1
                 | _ \<Rightarrow> send_fatal_alert env INTERNAL_ERROR s1) of
             Returns _ s2 \<Rightarrow> Some (Throws e s2)
           | Throws e2 s2 \<Rightarrow> Some (Throws e2 s2)
           | Null_Dereference \<Rightarrow> Some Null_Dereference)
      | _ \<Rightarrow> r)"

text \<open>\<^verbatim>\<open>received_data\<close> (lines 57 to 179).\<close>

definition received_data ::
  "('cs, 'rl, 'hl, 'th, 'z) collaborators \<Rightarrow> bytes \<Rightarrow>
   ('cs, 'rl, 'hl, 'th, 'z) channel_scheme \<Rightarrow>
   (nat, ('cs, 'rl, 'hl, 'th, 'z) channel_scheme) outcome option" where
  "received_data env input s =
     (if is_downgrading s then Some (Throws (Invalid_State ''!is_downgrading()'') s)
      else if \<not> m_can_read s then Some (Returns 0 s)
      else received_data_catch env (received_data_body env input s))"

subsection \<open>An instance of the collaborators, for running the model\<close>

text \<open>
  A small implementation of every collaborator, used to evaluate the model on concrete
  inputs. A record on the wire is a type byte, a length byte and the fragment; a handshake
  message is a kind byte and one byte of body; an alert is a level byte and a code byte.
  The cipher state says which keys it holds.
\<close>

record test_cipher_state =
  application_traffic :: bool
  has_read_keys :: bool
  has_write_keys :: bool

definition test_record_type :: "8 word \<Rightarrow> record_type" where
  "test_record_type t =
     (if t = 22 then HANDSHAKE
      else if t = 20 then CHANGE_CIPHER_SPEC
      else if t = 23 then APPLICATION_DATA
      else if t = 21 then ALERT
      else OTHER_RECORD_TYPE (unat t))"

definition test_record_code :: "record_type \<Rightarrow> 8 word" where
  "test_record_code t =
     (case t of
        HANDSHAKE \<Rightarrow> 22
      | CHANGE_CIPHER_SPEC \<Rightarrow> 20
      | APPLICATION_DATA \<Rightarrow> 23
      | ALERT \<Rightarrow> 21
      | OTHER_RECORD_TYPE n \<Rightarrow> of_nat n)"

definition test_next_record ::
  "bytes \<Rightarrow> test_cipher_state option \<Rightarrow>
   (exn \<times> bytes \<times> (test_cipher_state \<Rightarrow> test_cipher_state))
   + (record_result \<times> bytes \<times> (test_cipher_state \<Rightarrow> test_cipher_state))" where
  "test_next_record buf cs =
     (case buf of
        t # n # rest \<Rightarrow>
          (if unat n \<le> length rest
           then Inr (Record \<lparr>type = test_record_type t,
                             fragment = take (unat n) rest,
                             seq_no = (if t = 23 then Some 0 else None)\<rparr>,
                     drop (unat n) rest, id)
           else Inr (BytesNeeded (unat n - length rest), buf, id))
      | _ \<Rightarrow> Inr (BytesNeeded (2 - length buf), buf, id))"

definition test_prepare_records ::
  "record_type \<Rightarrow> bytes \<Rightarrow> bytes \<Rightarrow> test_cipher_state option \<Rightarrow>
   (exn \<times> bytes \<times> (test_cipher_state \<Rightarrow> test_cipher_state))
   + (bytes \<times> bytes \<times> (test_cipher_state \<Rightarrow> test_cipher_state))" where
  "test_prepare_records t rec buf cs =
     Inr (test_record_code t # of_nat (length rec) # rec, buf, id)"

definition test_message :: "8 word \<Rightarrow> bytes \<Rightarrow> handshake_message" where
  "test_message k body =
     (if k = 1 then Client_Hello_13 body
      else if k = 2 then Server_Hello_13 body
      else if k = 3 then Server_Hello_12 body
      else if k = 6 then Hello_Retry_Request body
      else if k = 8 then Encrypted_Extensions body
      else if k = 11 then Certificate_13 body
      else if k = 15 then Certificate_Verify_13 body
      else Finished_13 body)"

definition test_next_message ::
  "bytes \<Rightarrow> bytes \<Rightarrow> (exn \<times> bytes \<times> bytes) + (handshake_message option \<times> bytes \<times> bytes)"
  where
  "test_next_message buf th =
     (case buf of
        k # b # rest \<Rightarrow> Inr (Some (test_message k [b]), rest, th @ [k, b])
      | _ \<Rightarrow> Inr (None, buf, th))"

definition test_alert_type :: "8 word \<Rightarrow> alert_type" where
  "test_alert_type c =
     (if c = 0 then CLOSE_NOTIFY
      else if c = 10 then UNEXPECTED_MESSAGE
      else if c = 20 then BAD_RECORD_MAC
      else if c = 50 then DECODE_ERROR
      else if c = 80 then INTERNAL_ERROR
      else if c = 90 then USER_CANCELED
      else OTHER_ALERT (unat c))"

definition test_alert_code :: "alert_type \<Rightarrow> 8 word" where
  "test_alert_code t =
     (case t of
        CLOSE_NOTIFY \<Rightarrow> 0
      | UNEXPECTED_MESSAGE \<Rightarrow> 10
      | BAD_RECORD_MAC \<Rightarrow> 20
      | DECODE_ERROR \<Rightarrow> 50
      | INTERNAL_ERROR \<Rightarrow> 80
      | USER_CANCELED \<Rightarrow> 90
      | NULL_ALERT \<Rightarrow> 0
      | OTHER_ALERT n \<Rightarrow> of_nat n)"

definition test_alert_parse :: "bytes \<Rightarrow> exn + alert" where
  "test_alert_parse buf =
     (case buf of
        [level, code] \<Rightarrow>
          (if level = 1 then Inr (Alert (test_alert_type code) False)
           else if level = 2 then Inr (Alert (test_alert_type code) True)
           else Inl (TLS_Exception (OTHER_ALERT 47) ''Bad code for TLS alert level''))
      | _ \<Rightarrow> Inl Decoding_Error)"

definition test_alert_serialize :: "alert \<Rightarrow> bytes" where
  "test_alert_serialize a =
     [if is_fatal a then 2 else 1, test_alert_code (alert.type a)]"

definition test_env :: "(test_cipher_state, bytes, bytes, bytes, unit) collaborators" where
  "test_env =
     \<lparr>rl_copy_data = (\<lambda>input buf. buf @ input),
      next_record = test_next_record,
      prepare_records = test_prepare_records,
      hl_copy_data = (\<lambda>input buf. buf @ input),
      next_message = test_next_message,
      has_pending_data = (\<lambda>buf. buf \<noteq> []),
      can_encrypt_application_traffic = application_traffic,
      clear_read_keys = (\<lambda>cs. cs\<lparr>has_read_keys := False\<rparr>),
      clear_write_keys = (\<lambda>cs. cs\<lparr>has_write_keys := False\<rparr>),
      alert_parse = test_alert_parse,
      alert_serialize = test_alert_serialize,
      alert_is_valid = (\<lambda>a. alert.type a \<noteq> NULL_ALERT),
      process_handshake_msg = (\<lambda>msg s. Returns () s)\<rparr>"

text \<open>A client channel as the constructor leaves it, and one whose handshake is done.\<close>

definition test_client :: "(test_cipher_state, bytes, bytes, bytes) channel" where
  "test_client = Channel_Impl_13 [] [] [] False"

definition test_keys :: test_cipher_state where
  "test_keys = \<lparr>application_traffic = True, has_read_keys = True, has_write_keys = True\<rparr>"

definition test_active_client :: "(test_cipher_state, bytes, bytes, bytes) channel" where
  "test_active_client = test_client\<lparr>m_cipher_state := Some test_keys\<rparr>"

declare handshake_loop.simps [code]
declare record_loop.simps [code]

subsection \<open>The error boundary as the specification words it\<close>

text \<open>
  The alert the specification assigns to an error (section 4.1, failure semantics, and
  section 7): a typed protocol error maps to its own classification, an
  authentication-tag failure to "bad record MAC", a decoding failure to "decode error",
  anything else to "internal error". It is compared below with the handlers of
  \<^verbatim>\<open>received_data\<close>.
\<close>

fun spec_fatal_alert :: "exn \<Rightarrow> alert_type" where
  "spec_fatal_alert (TLS_Exception classification _) = classification"
| "spec_fatal_alert Invalid_Authentication_Tag = BAD_RECORD_MAC"
| "spec_fatal_alert Decoding_Error = DECODE_ERROR"
| "spec_fatal_alert (Invalid_State _) = INTERNAL_ERROR"
| "spec_fatal_alert (Other_Exception _) = INTERNAL_ERROR"

text \<open>
  What a best-effort transmission of an alert adds to the log of callback calls: the
  framed alert if the alert is well-formed, the write side is open, the channel is not
  downgrading and the Record Layer frames it; nothing otherwise.
\<close>

definition spec_best_effort_transmission ::
  "('cs, 'rl, 'hl, 'th, 'z) collaborators \<Rightarrow> alert \<Rightarrow>
   ('cs, 'rl, 'hl, 'th, 'z) channel_scheme \<Rightarrow> callback_event list" where
  "spec_best_effort_transmission env a s =
     (if alert_is_valid env a \<and> m_can_write s \<and> \<not> is_downgrading s
      then (case prepare_records env ALERT (alert_serialize env a)
                   (m_record_layer s) (m_cipher_state s) of
              Inl _ \<Rightarrow> []
            | Inr (to_write, _) \<Rightarrow> [tls_emit_data to_write])
      else [])"

section \<open>Properties\<close>

lemmas test_defs = test_env_def test_client_def test_active_client_def test_keys_def
  Channel_Impl_13_def test_next_record_def test_prepare_records_def test_message_def
  test_next_message_def test_alert_type_def test_alert_code_def test_alert_parse_def
  test_alert_serialize_def test_record_type_def test_record_code_def

lemmas model_defs = received_data_def received_data_body_def received_data_catch_def
  process_record_def process_alert_def send_alert_def send_fatal_alert_def send_record_def
  shutdown_def is_downgrading_def expects_downgrade_def preserve_peer_transcript_def
  is_closure_alert_def is_error_alert_def Unexpected_Message_def is_active_def send_def
  expect_downgrade_def spec_best_effort_transmission_def
  record_loop.simps handshake_loop.simps

subsection \<open>The alert path\<close>

text \<open>
  \<open>send_alert\<close> returns unless it dereferences a null cipher state, which takes a
  closure alert and a channel without cipher state. What it adds to the callback log is
  the best-effort transmission of the alert; an error alert shuts the channel down.
\<close>

lemma send_alert_returns:
  assumes "is_error_alert a \<or> m_cipher_state s \<noteq> None"
  shows "\<exists>s'. send_alert env a s = Returns () s'
     \<and> m_callbacks s' = m_callbacks s @ spec_best_effort_transmission env a s
     \<and> m_downgrade_info s' = m_downgrade_info s
     \<and> (is_error_alert a \<longrightarrow>
          \<not> m_can_read s' \<and> \<not> m_can_write s' \<and> m_cipher_state s' = None)"
  using assms
  by (auto simp: send_alert_def send_record_def shutdown_def is_error_alert_def
      spec_best_effort_transmission_def split: sum.splits prod.splits)

text \<open>The handlers of \<open>received_data\<close> on an exception: the alert, then the rethrow.\<close>

lemma catch_rethrows:
  assumes "is_error_alert (Alert (spec_fatal_alert e) True) \<or> m_cipher_state s1 \<noteq> None"
  shows "\<exists>s2. send_fatal_alert env (spec_fatal_alert e) s1 = Returns () s2
     \<and> received_data_catch env (Some (Throws e s1)) = Some (Throws e s2)"
proof -
  obtain s2 where s2: "send_alert env (Alert (spec_fatal_alert e) True) s1 = Returns () s2"
    using send_alert_returns [OF assms] by blast
  then have "received_data_catch env (Some (Throws e s1)) = Some (Throws e s2)"
    by (cases e) (simp_all add: received_data_catch_def send_fatal_alert_def)
  with s2 show ?thesis
    by (simp add: send_fatal_alert_def)
qed

text \<open>
  With a cipher state present, the two closure paths are the half-close of RFC 8446 6.1:
  a received closure alert closes the read side only, a sent one the write side only.
\<close>

lemma process_alert_half_close:
  assumes "alert_parse env rec = Inr alert" and "is_closure_alert alert"
    and "m_cipher_state s = Some cs"
  shows "process_alert env rec s
     = Returns () (s\<lparr>m_can_read := False, m_cipher_state := Some (clear_read_keys env cs),
                     m_callbacks := m_callbacks s @ [tls_alert alert]\<rparr>)"
  using assms by (simp add: process_alert_def is_error_alert_def)

lemma send_alert_half_close:
  assumes "is_closure_alert alert" and "m_cipher_state s = Some cs"
  shows "\<exists>s'. send_alert env alert s = Returns () s' \<and> \<not> m_can_write s'
     \<and> m_can_read s' = m_can_read s"
  using assms
  by (auto simp: send_alert_def send_record_def is_error_alert_def
      split: sum.splits prod.splits)

text \<open>
  Claim C4 (half-close), evaluated where the code leaves it: on a client that has no
  cipher state yet, a close-notify alert record handed to \<open>received_data\<close> and a
  close-notify alert handed to \<open>send_alert\<close> both end in the dereference of the null
  cipher state, so neither reaches the state the claim describes (read side closed and
  write side untouched, or the converse). With a cipher state present the claim holds
  (\<open>process_alert_half_close\<close>, \<open>send_alert_half_close\<close>).
\<close>

theorem half_close_before_handshake_keys:
  "m_cipher_state test_client = None
   \<and> received_data test_env [21, 2, 1, 0] test_client = Some Null_Dereference
   \<and> send_alert test_env (Alert CLOSE_NOTIFY False) test_client = Null_Dereference"
  by (simp add: model_defs test_defs)

text \<open>
  Claim C6: both closure paths call the key erasure on the cipher state without checking
  that there is one. On every channel without cipher state, sending a closure alert
  (\<open>send_alert\<close>, after the attempted transmission) and processing a received one
  (\<open>process_alert\<close>, once the alert is parsed) dereference the null pointer.
\<close>

theorem closure_alert_null_dereference:
  assumes "m_cipher_state s = None" and "is_closure_alert alert"
  shows "send_alert env alert s = Null_Dereference
     \<and> (alert_parse env rec = Inr alert \<longrightarrow> process_alert env rec s = Null_Dereference)"
  using assms
  by (auto simp: send_alert_def send_record_def process_alert_def
      split: sum.splits prod.splits)

theorem closure_alert_null_dereference_witness:
  "m_cipher_state test_client = None
   \<and> is_closure_alert (Alert CLOSE_NOTIFY False)
   \<and> send_alert test_env (Alert CLOSE_NOTIFY False) test_client = Null_Dereference
   \<and> alert_parse test_env [1, 0] = Inr (Alert CLOSE_NOTIFY False)
   \<and> process_alert test_env [1, 0] test_client = Null_Dereference"
  using closure_alert_null_dereference
    [of test_client "Alert CLOSE_NOTIFY False" test_env "[1, 0]"]
  by (simp add: test_defs is_closure_alert_def)

subsection \<open>Sending and shutdown\<close>

text \<open>
  Claim C7: on a channel that is not active (no cipher state, or a cipher state that
  cannot encrypt application traffic, or a closed write side) \<open>send\<close> throws
  \<open>Invalid_State\<close>. The channel it throws with is the channel it was given: the state of
  the Record Layer and the log of callback calls are untouched, so neither
  \<open>prepare_records\<close> nor \<open>tls_emit_data\<close> was called.
\<close>

theorem send_inactive_fails:
  assumes "m_cipher_state s = None
     \<or> (\<exists>cs. m_cipher_state s = Some cs \<and> \<not> can_encrypt_application_traffic env cs)
     \<or> \<not> m_can_write s"
  shows "\<not> is_active env s
     \<and> send env buf s
         = Throws (Invalid_State ''Data cannot be sent on inactive TLS connection'') s"
  using assms by (auto simp: send_def is_active_def)

theorem send_inactive_fails_witness:
  "m_cipher_state test_client = None
   \<and> send test_env [104, 105] test_client
       = Throws (Invalid_State ''Data cannot be sent on inactive TLS connection'') test_client
   \<and> m_cipher_state (test_client\<lparr>m_cipher_state := Some (test_keys\<lparr>application_traffic := False\<rparr>)\<rparr>)
       = Some (test_keys\<lparr>application_traffic := False\<rparr>)
   \<and> \<not> can_encrypt_application_traffic test_env (test_keys\<lparr>application_traffic := False\<rparr>)
   \<and> send test_env [104, 105]
         (test_client\<lparr>m_cipher_state := Some (test_keys\<lparr>application_traffic := False\<rparr>)\<rparr>)
       = Throws (Invalid_State ''Data cannot be sent on inactive TLS connection'')
           (test_client\<lparr>m_cipher_state := Some (test_keys\<lparr>application_traffic := False\<rparr>)\<rparr>)
   \<and> \<not> m_can_write (test_active_client\<lparr>m_can_write := False\<rparr>)
   \<and> send test_env [104, 105] (test_active_client\<lparr>m_can_write := False\<rparr>)
       = Throws (Invalid_State ''Data cannot be sent on inactive TLS connection'')
           (test_active_client\<lparr>m_can_write := False\<rparr>)"
  using send_inactive_fails [of test_client test_env "[104, 105]"]
    send_inactive_fails
      [of "test_client\<lparr>m_cipher_state := Some (test_keys\<lparr>application_traffic := False\<rparr>)\<rparr>"
          test_env "[104, 105]"]
    send_inactive_fails [of "test_active_client\<lparr>m_can_write := False\<rparr>" test_env "[104, 105]"]
  by (simp add: test_defs)

text \<open>
  Claim C8: \<open>shutdown\<close> is idempotent. A second call leaves the channel exactly as the
  first did, with both directions closed and the cipher state released.
\<close>

theorem shutdown_idempotent:
  "shutdown (shutdown s) = shutdown s \<and> \<not> m_can_read (shutdown s)
   \<and> \<not> m_can_write (shutdown s) \<and> m_cipher_state (shutdown s) = None"
  by (simp add: shutdown_def)

subsection \<open>The error boundary of received_data\<close>

text \<open>
  An exception \<open>e\<close> thrown anywhere in the \<^verbatim>\<open>try\<close> block of \<open>received_data\<close> is
  caught by one handler, which sends the fatal alert the specification assigns to \<open>e\<close>
  (\<open>spec_fatal_alert\<close>: the classification of a typed protocol error, "bad record
  MAC" for an authentication-tag failure, "decode error" for a decoding failure,
  "internal error" for anything else) by a best-effort transmission, and
  \<open>received_data\<close> then rethrows \<open>e\<close> itself. This holds whenever the alert is an
  error alert or the channel has a cipher state.
\<close>

lemma error_boundary_rethrows:
  assumes "\<not> is_downgrading s" and "m_can_read s"
    and "received_data_body env input s = Some (Throws e s1)"
    and "is_error_alert (Alert (spec_fatal_alert e) True) \<or> m_cipher_state s1 \<noteq> None"
  shows "\<exists>s2. send_alert env (Alert (spec_fatal_alert e) True) s1 = Returns () s2
     \<and> received_data env input s = Some (Throws e s2)
     \<and> m_callbacks s2
         = m_callbacks s1
           @ spec_best_effort_transmission env (Alert (spec_fatal_alert e) True) s1"
proof -
  obtain s2 where s2: "send_alert env (Alert (spec_fatal_alert e) True) s1 = Returns () s2"
    and log: "m_callbacks s2
      = m_callbacks s1 @ spec_best_effort_transmission env (Alert (spec_fatal_alert e) True) s1"
    using send_alert_returns [OF assms(4)] by blast
  have "received_data_catch env (Some (Throws e s1)) = Some (Throws e s2)"
    using s2 by (cases e) (simp_all add: received_data_catch_def send_fatal_alert_def)
  then have "received_data env input s = Some (Throws e s2)"
    using assms(1-3) by (simp add: received_data_def)
  with s2 log show ?thesis by blast
qed

lemma error_boundary_rethrows_run:
  "\<not> is_downgrading test_active_client
   \<and> m_can_read test_active_client
   \<and> received_data_body test_env [21, 1, 5] test_active_client
       = Some (Throws Decoding_Error test_active_client)
   \<and> is_error_alert (Alert (spec_fatal_alert Decoding_Error) True)
   \<and> received_data test_env [21, 1, 5] test_active_client
       = Some (Throws Decoding_Error
           (test_active_client\<lparr>m_callbacks := [tls_emit_data [21, 2, 2, 50]],
              m_cipher_state := None, m_can_read := False, m_can_write := False\<rparr>))
   \<and> received_data_body
        (test_env\<lparr>next_record := \<lambda>buf cs. Inl (Invalid_Authentication_Tag, [], id)\<rparr>)
        [23, 1, 5] test_active_client
       = Some (Throws Invalid_Authentication_Tag test_active_client)
   \<and> is_error_alert (Alert (spec_fatal_alert Invalid_Authentication_Tag) True)
   \<and> received_data
        (test_env\<lparr>next_record := \<lambda>buf cs. Inl (Invalid_Authentication_Tag, [], id)\<rparr>)
        [23, 1, 5] test_active_client
       = Some (Throws Invalid_Authentication_Tag
           (test_active_client\<lparr>m_callbacks := [tls_emit_data [21, 2, 2, 20]],
              m_cipher_state := None, m_can_read := False, m_can_write := False\<rparr>))"
  using error_boundary_rethrows
    [of test_active_client test_env "[21, 1, 5]" Decoding_Error test_active_client]
    error_boundary_rethrows
    [of test_active_client
        "test_env\<lparr>next_record := \<lambda>buf cs. Inl (Invalid_Authentication_Tag, [], id)\<rparr>"
        "[23, 1, 5]" Invalid_Authentication_Tag test_active_client]
  by (simp add: model_defs test_defs)

text \<open>
  In the remaining case, a protocol error classified as a closure alert on a channel
  without cipher state, the handler does not get to its \<^verbatim>\<open>throw\<close>: \<open>send_alert\<close>
  dereferences the null cipher state (line 229).
\<close>

lemma send_alert_closure_without_cipher_state:
  assumes "is_closure_alert a" and "m_cipher_state s = None"
  shows "send_alert env a s = Null_Dereference"
  using assms
  by (auto simp: send_alert_def send_record_def split: sum.splits prod.splits)

lemma error_boundary_null_dereference:
  assumes "\<not> is_downgrading s" and "m_can_read s"
    and "received_data_body env input s = Some (Throws e s1)"
    and "is_closure_alert (Alert (spec_fatal_alert e) True)" and "m_cipher_state s1 = None"
  shows "received_data env input s = Some Null_Dereference"
proof -
  have "send_alert env (Alert (spec_fatal_alert e) True) s1 = Null_Dereference"
    using assms(4,5) by (rule send_alert_closure_without_cipher_state)
  then have "received_data_catch env (Some (Throws e s1)) = Some Null_Dereference"
    by (cases e) (simp_all add: received_data_catch_def send_fatal_alert_def)
  then show ?thesis
    using assms(1-3) by (simp add: received_data_def)
qed

text \<open>
  Claim C5, evaluated where the code leaves it. A client has no cipher state yet and the
  processing of its first handshake message throws a protocol error classified
  \<open>USER_CANCELED\<close> (the application aborting the handshake from a callback). The
  exception reaches the handlers of \<open>received_data\<close>, but it is not rethrown to the
  caller: the alert path dereferences the null cipher state, the defect of claims C4
  and C6. For every other error the claim holds (\<open>error_boundary_rethrows\<close>).
\<close>

theorem error_boundary_closure_classified:
  "m_cipher_state test_client = None
   \<and> received_data_body
        (test_env\<lparr>process_handshake_msg :=
           \<lambda>msg s. Throws (TLS_Exception USER_CANCELED ''canceled by the application'') s\<rparr>)
        [22, 2, 2, 7] test_client
       = Some (Throws (TLS_Exception USER_CANCELED ''canceled by the application'')
           (test_client\<lparr>m_transcript_hash := [2, 7]\<rparr>))
   \<and> received_data
        (test_env\<lparr>process_handshake_msg :=
           \<lambda>msg s. Throws (TLS_Exception USER_CANCELED ''canceled by the application'') s\<rparr>)
        [22, 2, 2, 7] test_client
       = Some Null_Dereference"
  by (simp add: model_defs test_defs)


subsection \<open>The dispatch on the record type\<close>

text \<open>One pass of the outer loop once the Record Layer has yielded a record.\<close>

lemma record_loop_pulled:
  assumes "next_record env (m_record_layer s) (m_cipher_state s) = Inr (Record r, rl, upd)"
  shows "record_loop env s
     = Option.bind
         (process_record env r
            (s\<lparr>m_record_layer := rl, m_cipher_state := map_option upd (m_cipher_state s)\<rparr>))
         (\<lambda>st. case st of Continue s1 \<Rightarrow> record_loop env s1 | Exit out \<Rightarrow> Some out)"
  using assms by (subst record_loop.simps) simp

lemma record_loop_handshake:
  assumes "next_record env (m_record_layer s) (m_cipher_state s) = Inr (Record r, rl, upd)"
    and "tls_record.type r = HANDSHAKE"
  shows "record_loop env s
     = Option.bind
         (handshake_loop env
            (s\<lparr>m_record_layer := rl, m_cipher_state := map_option upd (m_cipher_state s),
                m_handshake_layer := hl_copy_data env (fragment r) (m_handshake_layer s)\<rparr>))
         (\<lambda>st. case st of Continue s1 \<Rightarrow> record_loop env s1 | Exit out \<Rightarrow> Some out)"
  using assms by (simp add: record_loop_pulled process_record_def)

text \<open>One pass of the inner loop once the Handshake Layer has yielded a message.\<close>

lemma handshake_loop_message:
  assumes "next_message env (m_handshake_layer s) (m_transcript_hash s) = Inr (Some msg, hl, th)"
  shows "handshake_loop env s
     = (if holds_any_of_aligned msg \<and> has_pending_data env hl
        then Some (Exit (Throws
               (Unexpected_Message
                  ''Unexpected additional handshake message data found in record'')
               (s\<lparr>m_handshake_layer := hl, m_transcript_hash := th\<rparr>)))
        else
          (case process_handshake_msg env msg
                  (s\<lparr>m_handshake_layer := hl, m_transcript_hash := th\<rparr>) of
             Throws e s1 \<Rightarrow> Some (Exit (Throws e s1))
           | Null_Dereference \<Rightarrow> Some (Exit Null_Dereference)
           | Returns _ s1 \<Rightarrow>
               (if holds_Server_Hello_12 msg
                then
                  (case m_downgrade_info s1 of
                     None \<Rightarrow> Some (Exit (Throws (Invalid_State ''m_downgrade_info'') s1))
                   | Some di \<Rightarrow>
                       Some (Exit (Returns 0
                         (s1\<lparr>m_downgrade_info := Some (di\<lparr>will_downgrade := True\<rparr>)\<rparr>))))
                else handshake_loop env (s1\<lparr>m_downgrade_info := None\<rparr>))))"
  using assms by (subst handshake_loop.simps) simp


text \<open>The outer loop when the Record Layer asks for more bytes: the call returns.\<close>

lemma record_loop_bytes_needed:
  assumes "next_record env (m_record_layer s) (m_cipher_state s) = Inr (BytesNeeded n, rl, upd)"
  shows "record_loop env s
     = Some (Returns n
         (s\<lparr>m_record_layer := rl, m_cipher_state := map_option upd (m_cipher_state s)\<rparr>))"
  using assms by (subst record_loop.simps) simp

text \<open>
  How \<open>received_data\<close> enters the outer loop: the input is mirrored into the downgrade
  staging (if there is one) and handed to the Record Layer. The theorems below speak of
  \<open>received_data_catch env (record_loop env sr)\<close>, which is the rest of the call from
  a state \<open>sr\<close> of the outer loop on, whatever records were consumed before.
\<close>

lemma received_data_enters_loop:
  assumes "\<not> is_downgrading s" and "m_can_read s"
  shows "received_data env input s
     = received_data_catch env
         (record_loop env
            ((case m_downgrade_info s of
                None \<Rightarrow> s
              | Some di \<Rightarrow>
                  s\<lparr>m_downgrade_info :=
                      Some (di\<lparr>peer_transcript := peer_transcript di @ input\<rparr>)\<rparr>)
             \<lparr>m_record_layer := rl_copy_data env input (m_record_layer s)\<rparr>))"
  using assms
  by (cases "m_downgrade_info s")
    (simp_all add: received_data_def received_data_body_def expects_downgrade_def
      preserve_peer_transcript_def)

text \<open>
  Claim C1, as the code has it. While the Handshake Layer holds an incomplete message, a
  record of any type other than Handshake is illegal: the loop throws
  \<open>Unexpected_Message\<close> ("Expected remainder of a handshake message"), the handlers
  of \<open>received_data\<close> send the fatal alert \<open>UNEXPECTED_MESSAGE\<close> and rethrow it.
\<close>

theorem interleaved_record_rejected:
  assumes "next_record env (m_record_layer s) (m_cipher_state s) = Inr (Record r, rl, upd)"
    and "tls_record.type r \<noteq> HANDSHAKE"
    and "has_pending_data env (m_handshake_layer s)"
  shows "\<exists>s2.
      record_loop env s
        = Some (Throws (Unexpected_Message ''Expected remainder of a handshake message'')
            (s\<lparr>m_record_layer := rl, m_cipher_state := map_option upd (m_cipher_state s)\<rparr>))
    \<and> send_fatal_alert env UNEXPECTED_MESSAGE
        (s\<lparr>m_record_layer := rl, m_cipher_state := map_option upd (m_cipher_state s)\<rparr>)
        = Returns () s2
    \<and> received_data_catch env (record_loop env s)
        = Some (Throws (Unexpected_Message ''Expected remainder of a handshake message'') s2)"
proof -
  let ?e = "Unexpected_Message ''Expected remainder of a handshake message''"
  let ?s1 = "s\<lparr>m_record_layer := rl, m_cipher_state := map_option upd (m_cipher_state s)\<rparr>"
  have loop: "record_loop env s = Some (Throws ?e ?s1)"
    using assms by (simp add: record_loop_pulled process_record_def)
  have "is_error_alert (Alert (spec_fatal_alert ?e) True) \<or> m_cipher_state ?s1 \<noteq> None"
    by (simp add: Unexpected_Message_def is_error_alert_def is_closure_alert_def)
  from catch_rethrows [OF this, of env] loop show ?thesis
    by (auto simp: Unexpected_Message_def)
qed

theorem interleaved_record_rejected_witness:
  "next_record test_env (m_record_layer (test_client\<lparr>m_record_layer := [20, 1, 1], m_handshake_layer := [1]\<rparr>))
      (m_cipher_state (test_client\<lparr>m_record_layer := [20, 1, 1], m_handshake_layer := [1]\<rparr>))
     = Inr (Record \<lparr>type = CHANGE_CIPHER_SPEC, fragment = [1], seq_no = None\<rparr>, [], id)
   \<and> tls_record.type \<lparr>type = CHANGE_CIPHER_SPEC, fragment = [1], seq_no = None\<rparr> \<noteq> HANDSHAKE
   \<and> has_pending_data test_env
       (m_handshake_layer (test_client\<lparr>m_record_layer := [20, 1, 1], m_handshake_layer := [1]\<rparr>))
   \<and> received_data_catch test_env
        (record_loop test_env (test_client\<lparr>m_record_layer := [20, 1, 1], m_handshake_layer := [1]\<rparr>))
       = Some (Throws (Unexpected_Message ''Expected remainder of a handshake message'')
           (test_client\<lparr>m_callbacks := [tls_emit_data [21, 2, 2, 10]],
              m_handshake_layer := [1], m_can_read := False, m_can_write := False\<rparr>))"
  using interleaved_record_rejected
    [of test_env "test_client\<lparr>m_record_layer := [20, 1, 1], m_handshake_layer := [1]\<rparr>"
        "\<lparr>type = CHANGE_CIPHER_SPEC, fragment = [1], seq_no = None\<rparr>" "[]" id]
  by (simp add: model_defs test_defs)

text \<open>
  Claim C1 as stated fails: a Handshake-type record pulled while the Handshake Layer
  holds an incomplete message is the legal continuation of that message. A first record
  carries half of a ClientHello and leaves it pending; the Handshake record with the
  other half is then accepted and \<open>received_data\<close> returns normally.
\<close>

theorem handshake_record_accepted_while_pending:
  "received_data test_env [22, 1, 1] test_client
     = Some (Returns 2 (test_client\<lparr>m_handshake_layer := [1]\<rparr>))
   \<and> has_pending_data test_env (m_handshake_layer (test_client\<lparr>m_handshake_layer := [1]\<rparr>))
   \<and> next_record test_env [22, 1, 7] None
       = Inr (Record \<lparr>type = HANDSHAKE, fragment = [7], seq_no = None\<rparr>, [], id)
   \<and> received_data test_env [22, 1, 7] (test_client\<lparr>m_handshake_layer := [1]\<rparr>)
       = Some (Returns 2 (test_client\<lparr>m_transcript_hash := [1, 7]\<rparr>))"
  by (simp add: model_defs test_defs)

text \<open>
  Claim C9, as the code has it. When the Handshake Layer holds no incomplete message, a
  ChangeCipherSpec record is dropped: the dispatch leaves the channel exactly as the
  pull of the record left it (no callback, no flag, no other member changes) and the
  loop goes on with the next record.
\<close>

theorem change_cipher_spec_dropped:
  assumes "next_record env (m_record_layer s) (m_cipher_state s) = Inr (Record r, rl, upd)"
    and "tls_record.type r = CHANGE_CIPHER_SPEC"
    and "\<not> has_pending_data env (m_handshake_layer s)"
  shows "process_record env r
       (s\<lparr>m_record_layer := rl, m_cipher_state := map_option upd (m_cipher_state s)\<rparr>)
     = Some (Continue
         (s\<lparr>m_record_layer := rl, m_cipher_state := map_option upd (m_cipher_state s)\<rparr>))
   \<and> record_loop env s
     = record_loop env
         (s\<lparr>m_record_layer := rl, m_cipher_state := map_option upd (m_cipher_state s)\<rparr>)"
  using assms by (simp add: record_loop_pulled process_record_def)

theorem change_cipher_spec_dropped_witness:
  "next_record test_env (m_record_layer (test_active_client\<lparr>m_record_layer := [20, 1, 1]\<rparr>))
      (m_cipher_state (test_active_client\<lparr>m_record_layer := [20, 1, 1]\<rparr>))
     = Inr (Record \<lparr>type = CHANGE_CIPHER_SPEC, fragment = [1], seq_no = None\<rparr>, [], id)
   \<and> tls_record.type \<lparr>type = CHANGE_CIPHER_SPEC, fragment = [1], seq_no = None\<rparr>
       = CHANGE_CIPHER_SPEC
   \<and> \<not> has_pending_data test_env
         (m_handshake_layer (test_active_client\<lparr>m_record_layer := [20, 1, 1]\<rparr>))
   \<and> record_loop test_env (test_active_client\<lparr>m_record_layer := [20, 1, 1]\<rparr>)
       = record_loop test_env test_active_client
   \<and> received_data test_env [20, 1, 1] test_active_client
       = Some (Returns 2 test_active_client)"
  using change_cipher_spec_dropped
    [of test_env "test_active_client\<lparr>m_record_layer := [20, 1, 1]\<rparr>"
        "\<lparr>type = CHANGE_CIPHER_SPEC, fragment = [1], seq_no = None\<rparr>" "[]" id]
  by (simp add: model_defs test_defs)

text \<open>
  Claim C9 as stated fails: the interleaving check of line 84 comes before the dispatch,
  so a ChangeCipherSpec record pulled while a handshake message is incomplete is not
  dropped. \<open>received_data\<close> throws, the alert goes out through \<open>tls_emit_data\<close> and
  both directions are closed.
\<close>

theorem change_cipher_spec_rejected_while_pending:
  "has_pending_data test_env (m_handshake_layer (test_client\<lparr>m_handshake_layer := [1]\<rparr>))
   \<and> next_record test_env [20, 1, 1] None
       = Inr (Record \<lparr>type = CHANGE_CIPHER_SPEC, fragment = [1], seq_no = None\<rparr>, [], id)
   \<and> received_data test_env [20, 1, 1] (test_client\<lparr>m_handshake_layer := [1]\<rparr>)
       = Some (Throws (Unexpected_Message ''Expected remainder of a handshake message'')
           (test_client\<lparr>m_callbacks := [tls_emit_data [21, 2, 2, 10]],
              m_handshake_layer := [1], m_can_read := False, m_can_write := False\<rparr>))"
  by (simp add: model_defs test_defs)

subsection \<open>Handshake messages\<close>

text \<open>
  Claim C2: a handshake record \<open>r\<close> is being drained (the inner loop, started on the
  fragment of \<open>r\<close>, has reached \<open>s\<close>) and the Handshake Layer yields a ClientHello,
  ServerHello, HelloRetryRequest or Finished. If it still has buffered bytes after the
  message, the loop throws \<open>Unexpected_Message\<close> ("Unexpected additional handshake
  message data found in record"), and \<open>received_data\<close> sends the fatal alert and
  rethrows it. If no byte remains, the check raises nothing: the message goes to
  \<open>process_handshake_msg\<close> and the outcome of the loop is that of the processing and
  of the messages after it.
\<close>

theorem record_boundary_alignment:
  assumes pulled:
      "next_record env (m_record_layer sr) (m_cipher_state sr) = Inr (Record r, rl, upd)"
    and hs: "tls_record.type r = HANDSHAKE"
    and drain:
      "handshake_loop env
         (sr\<lparr>m_record_layer := rl, m_cipher_state := map_option upd (m_cipher_state sr),
             m_handshake_layer := hl_copy_data env (fragment r) (m_handshake_layer sr)\<rparr>)
       = handshake_loop env s"
    and msg:
      "next_message env (m_handshake_layer s) (m_transcript_hash s) = Inr (Some msg, hl, th)"
    and kind: "msg = Client_Hello_13 b \<or> msg = Server_Hello_13 b
       \<or> msg = Hello_Retry_Request b \<or> msg = Finished_13 b"
  shows "(has_pending_data env hl \<longrightarrow>
           (\<exists>s2.
              handshake_loop env s
                = Some (Exit (Throws
                    (Unexpected_Message
                       ''Unexpected additional handshake message data found in record'')
                    (s\<lparr>m_handshake_layer := hl, m_transcript_hash := th\<rparr>)))
            \<and> send_fatal_alert env UNEXPECTED_MESSAGE
                (s\<lparr>m_handshake_layer := hl, m_transcript_hash := th\<rparr>) = Returns () s2
            \<and> received_data_catch env (record_loop env sr)
                = Some (Throws
                    (Unexpected_Message
                       ''Unexpected additional handshake message data found in record'')
                    s2)))
     \<and> (\<not> has_pending_data env hl \<longrightarrow>
           handshake_loop env s
             = (case process_handshake_msg env msg
                       (s\<lparr>m_handshake_layer := hl, m_transcript_hash := th\<rparr>) of
                  Returns _ s1 \<Rightarrow> handshake_loop env (s1\<lparr>m_downgrade_info := None\<rparr>)
                | Throws e s1 \<Rightarrow> Some (Exit (Throws e s1))
                | Null_Dereference \<Rightarrow> Some (Exit Null_Dereference)))"
proof (intro conjI impI)
  let ?e = "Unexpected_Message ''Unexpected additional handshake message data found in record''"
  let ?s1 = "s\<lparr>m_handshake_layer := hl, m_transcript_hash := th\<rparr>"
  have aligned: "holds_any_of_aligned msg" and not12: "\<not> holds_Server_Hello_12 msg"
    using kind by auto
  {
    assume pending: "has_pending_data env hl"
    have inner: "handshake_loop env s = Some (Exit (Throws ?e ?s1))"
      using aligned pending by (simp add: handshake_loop_message [OF msg])
    have outer: "record_loop env sr = Some (Throws ?e ?s1)"
      using inner drain by (simp add: record_loop_handshake [OF pulled hs])
    have "is_error_alert (Alert (spec_fatal_alert ?e) True) \<or> m_cipher_state ?s1 \<noteq> None"
      by (simp add: Unexpected_Message_def is_error_alert_def is_closure_alert_def)
    from catch_rethrows [OF this, of env] inner outer
    show "\<exists>s2. handshake_loop env s = Some (Exit (Throws ?e ?s1))
        \<and> send_fatal_alert env UNEXPECTED_MESSAGE ?s1 = Returns () s2
        \<and> received_data_catch env (record_loop env sr) = Some (Throws ?e s2)"
      by (auto simp: Unexpected_Message_def)
  }
  {
    assume "\<not> has_pending_data env hl"
    then show "handshake_loop env s
      = (case process_handshake_msg env msg ?s1 of
           Returns _ s1 \<Rightarrow> handshake_loop env (s1\<lparr>m_downgrade_info := None\<rparr>)
         | Throws e s1 \<Rightarrow> Some (Exit (Throws e s1))
         | Null_Dereference \<Rightarrow> Some (Exit Null_Dereference))"
      using not12 by (simp add: handshake_loop_message [OF msg] split: outcome.splits)
  }
qed

theorem record_boundary_alignment_witness:
  "next_record test_env [22, 3, 1, 7, 9] None
     = Inr (Record \<lparr>type = HANDSHAKE, fragment = [1, 7, 9], seq_no = None\<rparr>, [], id)
   \<and> next_message test_env [1, 7, 9] [] = Inr (Some (Client_Hello_13 [7]), [9], [1, 7])
   \<and> has_pending_data test_env [9]
   \<and> received_data_catch test_env
        (record_loop test_env (test_client\<lparr>m_record_layer := [22, 3, 1, 7, 9]\<rparr>))
       = Some (Throws
           (Unexpected_Message ''Unexpected additional handshake message data found in record'')
           (test_client\<lparr>m_callbacks := [tls_emit_data [21, 2, 2, 10]],
              m_handshake_layer := [9], m_transcript_hash := [1, 7],
              m_can_read := False, m_can_write := False\<rparr>))
   \<and> received_data test_env [22, 3, 1, 7, 9] test_client
       = Some (Throws
           (Unexpected_Message ''Unexpected additional handshake message data found in record'')
           (test_client\<lparr>m_callbacks := [tls_emit_data [21, 2, 2, 10]],
              m_handshake_layer := [9], m_transcript_hash := [1, 7],
              m_can_read := False, m_can_write := False\<rparr>))
   \<and> next_record test_env [22, 2, 1, 7] None
       = Inr (Record \<lparr>type = HANDSHAKE, fragment = [1, 7], seq_no = None\<rparr>, [], id)
   \<and> next_message test_env [1, 7] [] = Inr (Some (Client_Hello_13 [7]), [], [1, 7])
   \<and> \<not> has_pending_data test_env []
   \<and> handshake_loop test_env (test_client\<lparr>m_handshake_layer := [1, 7]\<rparr>)
       = Some (Continue (test_client\<lparr>m_transcript_hash := [1, 7]\<rparr>))
   \<and> received_data test_env [22, 2, 1, 7] test_client
       = Some (Returns 2 (test_client\<lparr>m_transcript_hash := [1, 7]\<rparr>))"
  using record_boundary_alignment
    [where env = test_env and sr = "test_client\<lparr>m_record_layer := [22, 3, 1, 7, 9]\<rparr>"
       and r = "\<lparr>type = HANDSHAKE, fragment = [1, 7, 9], seq_no = None\<rparr>"
       and rl = "[]" and upd = id and s = "test_client\<lparr>m_handshake_layer := [1, 7, 9]\<rparr>"
       and msg = "Client_Hello_13 [7]" and hl = "[9]" and th = "[1, 7]" and b = "[7]"]
    record_boundary_alignment
    [where env = test_env and sr = "test_client\<lparr>m_record_layer := [22, 2, 1, 7]\<rparr>"
       and r = "\<lparr>type = HANDSHAKE, fragment = [1, 7], seq_no = None\<rparr>"
       and rl = "[]" and upd = id and s = "test_client\<lparr>m_handshake_layer := [1, 7]\<rparr>"
       and msg = "Client_Hello_13 [7]" and hl = "[]" and th = "[1, 7]" and b = "[7]"]
  by (simp add: model_defs test_defs)

text \<open>
  Claim C10: a legacy ServerHello is processed and there is no downgrade staging when
  \<open>process_handshake_msg\<close> returns. The state check of line 120 throws
  \<open>Invalid_State\<close>; no handler but \<^verbatim>\<open>catch(...)\<close> takes it, so the alert sent is
  the fatal \<open>INTERNAL_ERROR\<close> (by a best-effort transmission), \<open>Invalid_State\<close> is
  rethrown and the channel is not marked as downgrading.
\<close>

theorem legacy_server_hello_without_staging:
  assumes pulled:
      "next_record env (m_record_layer sr) (m_cipher_state sr) = Inr (Record r, rl, upd)"
    and hs: "tls_record.type r = HANDSHAKE"
    and drain:
      "handshake_loop env
         (sr\<lparr>m_record_layer := rl, m_cipher_state := map_option upd (m_cipher_state sr),
             m_handshake_layer := hl_copy_data env (fragment r) (m_handshake_layer sr)\<rparr>)
       = handshake_loop env s"
    and msg:
      "next_message env (m_handshake_layer s) (m_transcript_hash s)
       = Inr (Some (Server_Hello_12 b), hl, th)"
    and processed:
      "process_handshake_msg env (Server_Hello_12 b)
         (s\<lparr>m_handshake_layer := hl, m_transcript_hash := th\<rparr>) = Returns () sp"
    and no_staging: "m_downgrade_info sp = None"
  shows "\<exists>sf.
      handshake_loop env s = Some (Exit (Throws (Invalid_State ''m_downgrade_info'') sp))
    \<and> send_fatal_alert env INTERNAL_ERROR sp = Returns () sf
    \<and> received_data_catch env (record_loop env sr)
        = Some (Throws (Invalid_State ''m_downgrade_info'') sf)
    \<and> m_callbacks sf
        = m_callbacks sp @ spec_best_effort_transmission env (Alert INTERNAL_ERROR True) sp
    \<and> \<not> is_downgrading sf"
proof -
  let ?e = "Invalid_State ''m_downgrade_info''"
  have inner: "handshake_loop env s = Some (Exit (Throws ?e sp))"
    using processed no_staging by (simp add: handshake_loop_message [OF msg])
  have outer: "record_loop env sr = Some (Throws ?e sp)"
    using inner drain by (simp add: record_loop_handshake [OF pulled hs])
  have err: "is_error_alert (Alert INTERNAL_ERROR True)"
    by (simp add: is_error_alert_def is_closure_alert_def)
  then obtain sf where sf: "send_alert env (Alert INTERNAL_ERROR True) sp = Returns () sf"
    and log: "m_callbacks sf
      = m_callbacks sp @ spec_best_effort_transmission env (Alert INTERNAL_ERROR True) sp"
    and staging: "m_downgrade_info sf = m_downgrade_info sp"
    using send_alert_returns [of "Alert INTERNAL_ERROR True" sp env] by blast
  have "received_data_catch env (record_loop env sr) = Some (Throws ?e sf)"
    using sf outer by (simp add: received_data_catch_def send_fatal_alert_def)
  with inner sf log staging no_staging show ?thesis
    by (auto simp: send_fatal_alert_def is_downgrading_def)
qed

theorem legacy_server_hello_without_staging_witness:
  "next_record test_env [22, 2, 3, 7] None
     = Inr (Record \<lparr>type = HANDSHAKE, fragment = [3, 7], seq_no = None\<rparr>, [], id)
   \<and> next_message test_env [3, 7] [] = Inr (Some (Server_Hello_12 [7]), [], [3, 7])
   \<and> process_handshake_msg test_env (Server_Hello_12 [7])
        (test_client\<lparr>m_transcript_hash := [3, 7]\<rparr>)
       = Returns () (test_client\<lparr>m_transcript_hash := [3, 7]\<rparr>)
   \<and> m_downgrade_info (test_client\<lparr>m_transcript_hash := [3, 7]\<rparr>) = None
   \<and> received_data_catch test_env
        (record_loop test_env (test_client\<lparr>m_record_layer := [22, 2, 3, 7]\<rparr>))
       = Some (Throws (Invalid_State ''m_downgrade_info'')
           (test_client\<lparr>m_callbacks := [tls_emit_data [21, 2, 2, 80]],
              m_transcript_hash := [3, 7], m_can_read := False, m_can_write := False\<rparr>))
   \<and> received_data test_env [22, 2, 3, 7] test_client
       = Some (Throws (Invalid_State ''m_downgrade_info'')
           (test_client\<lparr>m_callbacks := [tls_emit_data [21, 2, 2, 80]],
              m_transcript_hash := [3, 7], m_can_read := False, m_can_write := False\<rparr>))"
  using legacy_server_hello_without_staging
    [where env = test_env and sr = "test_client\<lparr>m_record_layer := [22, 2, 3, 7]\<rparr>"
       and r = "\<lparr>type = HANDSHAKE, fragment = [3, 7], seq_no = None\<rparr>"
       and rl = "[]" and upd = id and s = "test_client\<lparr>m_handshake_layer := [3, 7]\<rparr>"
       and b = "[7]" and hl = "[]" and th = "[3, 7]"
       and sp = "test_client\<lparr>m_transcript_hash := [3, 7]\<rparr>"]
  by (simp add: model_defs test_defs)

subsection \<open>Downgrade\<close>

text \<open>What \<open>expect_downgrade\<close> leaves: an empty staging, not yet marked.\<close>

lemma expect_downgrade_installs_staging:
  "m_downgrade_info (expect_downgrade server_information s)
     = Some \<lparr>client_hello_message = [], peer_transcript = [],
             server_info = server_information, will_downgrade = False\<rparr>
   \<and> expects_downgrade (expect_downgrade server_information s)
   \<and> \<not> is_downgrading (expect_downgrade server_information s)"
  by (simp add: expect_downgrade_def expects_downgrade_def is_downgrading_def)

text \<open>
  Until the first handshake message is complete the staging stays: the dispatch of a
  record of another type does not touch it, and does on the channel without staging
  what it does on the channel with it.
\<close>

lemma dispatch_keeps_staging:
  assumes "tls_record.type r \<noteq> HANDSHAKE" and "process_record env r s = Some (Continue s1)"
  shows "m_downgrade_info s1 = m_downgrade_info s"
  using assms
  by (auto simp: process_record_def process_alert_def shutdown_def Let_def
      split: if_splits option.splits outcome.splits sum.splits)

lemma dispatch_independent_of_staging:
  assumes "tls_record.type r \<noteq> HANDSHAKE" and "process_record env r s = Some (Continue s1)"
  shows "process_record env r (s\<lparr>m_downgrade_info := None\<rparr>)
     = Some (Continue (s1\<lparr>m_downgrade_info := None\<rparr>))"
  using assms
  by (auto simp: process_record_def process_alert_def shutdown_def Let_def
      split: if_splits option.splits outcome.splits sum.splits)




end
